theory Spec2Isabelle
  imports Main "HOL-Library.Sublist"
begin

section \<open>Data model (src/types/index.ts)\<close>

text \<open>
  JavaScript numbers that only ever hold small integers (ids, limit, offset) are modelled
  as \<open>int\<close>. Strings are \<open>string\<close>: each \<open>char\<close> stands for one UTF-16 code unit below
  256, the range in which \<open>String.prototype.toLowerCase\<close> acts on each unit separately.
\<close>

record Pokemon =
  pokemon_id :: int
  name :: string
  url :: string
  imageUrl :: string
  types :: "string list"

record PaginationConfig =
  limit :: int
  offset :: int

text \<open>
  The detail record of the API, which the controllers only store and clear. Its nested
  objects are flattened: the two sprites and the optional official artwork (absent, or
  present with a nullable address), each type as slot, name and url, each stat as base
  value, effort, name and url, each ability as name, url, hidden flag and slot.
\<close>

record PokemonDetail =
  detail_id :: int
  detail_name :: string
  height :: int
  weight :: int
  base_experience :: int
  sprite_front_default :: "string option"
  sprite_back_default :: "string option"
  sprite_official_artwork :: "string option option"
  detail_types :: "(int \<times> string \<times> string) list"
  stats :: "(int \<times> int \<times> string \<times> string) list"
  abilities :: "(string \<times> string \<times> bool \<times> int) list"

section \<open>String operations used by the store\<close>

text \<open>
  \<open>toLowerCase\<close> on code units below 256: A..Z, and the Latin-1 capitals 192..214 and
  216..222, move up by 32; every other unit is unchanged.
\<close>

definition toLowerUnit :: "char \<Rightarrow> char" where
  "toLowerUnit c =
     (let n = (of_char c :: nat)
      in if (65 \<le> n \<and> n \<le> 90) \<or> (192 \<le> n \<and> n \<le> 214) \<or> (216 \<le> n \<and> n \<le> 222)
         then char_of (n + 32) else c)"

definition toLowerCase :: "string \<Rightarrow> string" where
  "toLowerCase s = map toLowerUnit s"

text \<open>\<open>s.includes(sub)\<close>: \<open>sub\<close> occurs in \<open>s\<close> as a contiguous block.\<close>

fun includes_str :: "string \<Rightarrow> string \<Rightarrow> bool" where
  "includes_str [] sub = (sub = [])"
| "includes_str (c # cs) sub = (prefix sub (c # cs) \<or> includes_str cs sub)"

text \<open>A JavaScript string is truthy exactly when it is not empty.\<close>

definition truthy :: "string \<Rightarrow> bool" where
  "truthy s = (s \<noteq> [])"

section \<open>The store (store/pokemonStore.ts)\<close>

record PokemonStore =
  pokemonList :: "Pokemon list"
  filteredList :: "Pokemon list"
  searchQuery :: string
  isLoading :: bool
  isRefreshing :: bool
  error :: "string option"
  hasMore :: bool
  pagination :: PaginationConfig
  selectedPokemon :: "PokemonDetail option"
  detailLoading :: bool
  detailError :: "string option"

definition INITIAL_PAGINATION :: PaginationConfig where
  "INITIAL_PAGINATION = \<lparr>limit = 20, offset = 0\<rparr>"

definition initialStore :: PokemonStore where
  "initialStore =
     \<lparr>pokemonList = [], filteredList = [], searchQuery = [],
      isLoading = False, isRefreshing = False, error = None,
      hasMore = True, pagination = INITIAL_PAGINATION,
      selectedPokemon = None, detailLoading = False, detailError = None\<rparr>"

definition setPokemonList :: "Pokemon list \<Rightarrow> bool \<Rightarrow> PokemonStore \<Rightarrow> PokemonStore" where
  "setPokemonList pokemon appendToList state =
     (let newList = (if appendToList then pokemonList state @ pokemon else pokemon);
          query = toLowerCase (searchQuery state);
          filtered = (if truthy query
                      then filter (\<lambda>p. includes_str (toLowerCase (name p)) query) newList
                      else newList)
      in state\<lparr>pokemonList := newList, filteredList := filtered\<rparr>)"

definition setLoading :: "bool \<Rightarrow> PokemonStore \<Rightarrow> PokemonStore" where
  "setLoading b state = state\<lparr>isLoading := b\<rparr>"

definition setRefreshing :: "bool \<Rightarrow> PokemonStore \<Rightarrow> PokemonStore" where
  "setRefreshing b state = state\<lparr>isRefreshing := b\<rparr>"

definition setError :: "string option \<Rightarrow> PokemonStore \<Rightarrow> PokemonStore" where
  "setError e state = state\<lparr>error := e\<rparr>"

definition setHasMore :: "bool \<Rightarrow> PokemonStore \<Rightarrow> PokemonStore" where
  "setHasMore b state = state\<lparr>hasMore := b\<rparr>"

definition setPagination :: "PaginationConfig \<Rightarrow> PokemonStore \<Rightarrow> PokemonStore" where
  "setPagination p state = state\<lparr>pagination := p\<rparr>"

definition setSearchQuery :: "string \<Rightarrow> PokemonStore \<Rightarrow> PokemonStore" where
  "setSearchQuery q state =
     (let query = toLowerCase q;
          filtered = (if truthy query
                      then filter (\<lambda>p. includes_str (toLowerCase (name p)) query) (pokemonList state)
                      else pokemonList state)
      in state\<lparr>searchQuery := q, filteredList := filtered\<rparr>)"

definition resetList :: "PokemonStore \<Rightarrow> PokemonStore" where
  "resetList state =
     state\<lparr>pokemonList := [], filteredList := [], searchQuery := [],
           isLoading := False, isRefreshing := False, error := None,
           hasMore := True, pagination := INITIAL_PAGINATION\<rparr>"

definition setSelectedPokemon :: "PokemonDetail option \<Rightarrow> PokemonStore \<Rightarrow> PokemonStore" where
  "setSelectedPokemon d state = state\<lparr>selectedPokemon := d\<rparr>"

definition setDetailLoading :: "bool \<Rightarrow> PokemonStore \<Rightarrow> PokemonStore" where
  "setDetailLoading b state = state\<lparr>detailLoading := b\<rparr>"

definition setDetailError :: "string option \<Rightarrow> PokemonStore \<Rightarrow> PokemonStore" where
  "setDetailError e state = state\<lparr>detailError := e\<rparr>"

definition resetDetail :: "PokemonStore \<Rightarrow> PokemonStore" where
  "resetDetail state =
     state\<lparr>selectedPokemon := None, detailLoading := False, detailError := None\<rparr>"

text \<open>
  Every way the store can change is one of its actions; a reachable store is the
  initial store after a finite sequence of them.
\<close>

datatype store_action =
    SetPokemonList "Pokemon list" bool
  | SetLoading bool
  | SetRefreshing bool
  | SetError "string option"
  | SetHasMore bool
  | SetPagination PaginationConfig
  | SetSearchQuery string
  | ResetList
  | SetSelectedPokemon "PokemonDetail option"
  | SetDetailLoading bool
  | SetDetailError "string option"
  | ResetDetail

fun dispatch :: "store_action \<Rightarrow> PokemonStore \<Rightarrow> PokemonStore" where
  "dispatch (SetPokemonList ps appendToList) st = setPokemonList ps appendToList st"
| "dispatch (SetLoading b) st = setLoading b st"
| "dispatch (SetRefreshing b) st = setRefreshing b st"
| "dispatch (SetError e) st = setError e st"
| "dispatch (SetHasMore b) st = setHasMore b st"
| "dispatch (SetPagination p) st = setPagination p st"
| "dispatch (SetSearchQuery q) st = setSearchQuery q st"
| "dispatch ResetList st = resetList st"
| "dispatch (SetSelectedPokemon d) st = setSelectedPokemon d st"
| "dispatch (SetDetailLoading b) st = setDetailLoading b st"
| "dispatch (SetDetailError e) st = setDetailError e st"
| "dispatch ResetDetail st = resetDetail st"

definition runStore :: "store_action list \<Rightarrow> PokemonStore \<Rightarrow> PokemonStore" where
  "runStore acts st = foldl (\<lambda>s a. dispatch a s) st acts"

text \<open>
  The filtered view as the specification words it: the entries of the accumulated
  sequence for which the search term is empty or the lowercased name contains the
  lowercased term, in the order of the accumulated sequence.
\<close>

definition specFilteredView :: "string \<Rightarrow> Pokemon list \<Rightarrow> Pokemon list" where
  "specFilteredView search accumulated =
     filter (\<lambda>e. search = [] \<or> includes_str (toLowerCase (name e)) (toLowerCase search)) accumulated"

definition viewInvariant :: "PokemonStore \<Rightarrow> bool" where
  "viewInvariant st = (filteredList st = specFilteredView (searchQuery st) (pokemonList st))"

section \<open>The data gateway (api/pokemonApi.ts)\<close>

text \<open>
  What a rejected gateway promise carries: an Axios error with its optional \<open>code\<close> and
  the status of its optional \<open>response\<close>, any other \<open>Error\<close> with its message, or a
  thrown value that is not an \<open>Error\<close>.
\<close>

datatype js_error =
    AxiosError "string option" "int option"
  | PlainError string
  | Thrown

fun getErrorMessage :: "js_error \<Rightarrow> string" where
  "getErrorMessage (AxiosError code response) =
     (if code = Some ''ECONNABORTED''
      then ''Request timed out. Please check your connection and try again.''
      else case response of
        None \<Rightarrow> ''Network error. Please check your internet connection.''
      | Some status \<Rightarrow>
          if status = 404 then ''Pokemon not found.''
          else if status = 429 then ''Too many requests. Please wait a moment and try again.''
          else if status = 500 \<or> status = 502 \<or> status = 503
          then ''Server error. Please try again later.''
          else ''An unexpected error occurred. Please try again.'')"
| "getErrorMessage (PlainError message) = message"
| "getErrorMessage Thrown = ''An unknown error occurred. Please try again.''"

text \<open>The value \<open>fetchPokemonList\<close> resolves to; its \<open>pokemon\<close> is always an array.\<close>

record page_result =
  pokemon :: "Pokemon list"
  moreAvailable :: bool

datatype id_or_name = Id int | Name string

datatype request = GetPokemonList PaginationConfig | GetPokemonDetail id_or_name

section \<open>The hooks (hooks/useFetchItems.ts, hooks/usePokemonDetail.ts)\<close>

text \<open>
  The state the hooks work on: the store, the two refs of \<open>useFetchItems\<close>, and the
  requests handed to the gateway so far, in order. An asynchronous action is modelled
  by two functions: the action itself runs the call up to the point where it returns
  or awaits the gateway, and its \<open>_resume\<close> function runs the rest of the body once
  the awaited promise has settled, with \<open>Inr\<close> the resolved value and \<open>Inl\<close> the
  rejection. Between the two, other actions may run.

  Store values that a callback reads through its closure (\<open>hasMore\<close>, \<open>isLoading\<close>,
  \<open>isRefreshing\<close>, \<open>pagination\<close>, \<open>searchQuery\<close>) are those of the render that created
  the callback: the argument \<open>rs\<close> is the store as that render saw it. Refs are read
  from the current state.
\<close>

record app =
  store :: PokemonStore
  isFetchingRef :: bool
  isLoadingMoreRef :: bool
  requests :: "request list"

definition initialApp :: app where
  "initialApp =
     \<lparr>store = initialStore, isFetchingRef = False, isLoadingMoreRef = False, requests = []\<rparr>"

definition onStore :: "(PokemonStore \<Rightarrow> PokemonStore) \<Rightarrow> app \<Rightarrow> app" where
  "onStore f s = s\<lparr>store := f (store s)\<rparr>"

definition fetchPokemonList :: "PaginationConfig \<Rightarrow> app \<Rightarrow> app" where
  "fetchPokemonList p s = s\<lparr>requests := requests s @ [GetPokemonList p]\<rparr>"

definition fetchPokemonDetail :: "id_or_name \<Rightarrow> app \<Rightarrow> app" where
  "fetchPokemonDetail i s = s\<lparr>requests := requests s @ [GetPokemonDetail i]\<rparr>"

definition loadInitialData :: "app \<Rightarrow> app" where
  "loadInitialData s =
     (if isFetchingRef s then s
      else let s = s\<lparr>isFetchingRef := True\<rparr>;
               s = onStore (setLoading True) s;
               s = onStore (setError None) s
           in fetchPokemonList \<lparr>limit = 20, offset = 0\<rparr> s)"

definition loadInitialData_resume :: "js_error + page_result \<Rightarrow> app \<Rightarrow> app" where
  "loadInitialData_resume r s =
     (let s = (case r of
                 Inr res \<Rightarrow>
                   let s = onStore (setPokemonList (pokemon res) False) s;
                       s = onStore (setHasMore (moreAvailable res)) s
                   in onStore (setPagination \<lparr>limit = 20, offset = 20\<rparr>) s
               | Inl err \<Rightarrow> onStore (setError (Some (getErrorMessage err))) s);
          s = onStore (setLoading False) s
      in s\<lparr>isFetchingRef := False\<rparr>)"

definition loadMoreData :: "PokemonStore \<Rightarrow> app \<Rightarrow> app" where
  "loadMoreData rs s =
     (if isLoadingMoreRef s \<or> \<not> hasMore rs \<or> isLoading rs \<or> isRefreshing rs then s
      else let s = s\<lparr>isLoadingMoreRef := True\<rparr>
           in fetchPokemonList (pagination rs) s)"

definition loadMoreData_resume :: "PokemonStore \<Rightarrow> js_error + page_result \<Rightarrow> app \<Rightarrow> app" where
  "loadMoreData_resume rs r s =
     (let s = (case r of
                 Inr res \<Rightarrow>
                   let s = onStore (setPokemonList (pokemon res) True) s;
                       s = onStore (setHasMore (moreAvailable res)) s
                   in onStore (setPagination
                        ((pagination rs)\<lparr>offset := offset (pagination rs) + limit (pagination rs)\<rparr>)) s
               | Inl err \<Rightarrow> s)
      in s\<lparr>isLoadingMoreRef := False\<rparr>)"

definition refreshData :: "PokemonStore \<Rightarrow> app \<Rightarrow> app" where
  "refreshData rs s =
     (if isFetchingRef s \<or> isLoading rs then s
      else let s = s\<lparr>isFetchingRef := True\<rparr>;
               s = onStore (setRefreshing True) s;
               s = onStore (setError None) s
           in fetchPokemonList \<lparr>limit = 20, offset = 0\<rparr> s)"

definition refreshData_resume :: "js_error + page_result \<Rightarrow> app \<Rightarrow> app" where
  "refreshData_resume r s =
     (let s = (case r of
                 Inr res \<Rightarrow>
                   let s = onStore resetList s;
                       s = onStore (setPokemonList (pokemon res) False) s;
                       s = onStore (setHasMore (moreAvailable res)) s
                   in onStore (setPagination \<lparr>limit = 20, offset = 20\<rparr>) s
               | Inl err \<Rightarrow> onStore (setError (Some (getErrorMessage err))) s);
          s = onStore (setRefreshing False) s
      in s\<lparr>isFetchingRef := False\<rparr>)"

definition retryFetch :: "app \<Rightarrow> app" where
  "retryFetch s = loadInitialData s"

text \<open>\<open>handleEndReached\<close> of screens/PokemonListScreen.tsx, the caller of \<open>loadMoreData\<close>.\<close>

definition handleEndReached :: "PokemonStore \<Rightarrow> app \<Rightarrow> app" where
  "handleEndReached rs s =
     (if \<not> isLoading rs \<and> \<not> isRefreshing rs \<and> hasMore rs \<and> \<not> truthy (searchQuery rs)
      then loadMoreData rs s else s)"

definition fetchDetail :: "id_or_name \<Rightarrow> app \<Rightarrow> app" where
  "fetchDetail idOrName s =
     (let s = onStore (setDetailLoading True) s;
          s = onStore (setDetailError None) s
      in fetchPokemonDetail idOrName s)"

definition fetchDetail_resume :: "js_error + PokemonDetail \<Rightarrow> app \<Rightarrow> app" where
  "fetchDetail_resume r s =
     (let s = (case r of
                 Inr pokemonData \<Rightarrow> onStore (setSelectedPokemon (Some pokemonData)) s
               | Inl err \<Rightarrow> onStore (setDetailError (Some (getErrorMessage err))) s)
      in onStore (setDetailLoading False) s)"

definition retry :: "id_or_name \<Rightarrow> app \<Rightarrow> app" where
  "retry pokemonId s = fetchDetail pokemonId s"

definition cleanup :: "app \<Rightarrow> app" where
  "cleanup s = onStore resetDetail s"

text \<open>
  The effect of \<open>usePokemonDetail\<close>: on entering with an id it fetches when the id is
  truthy (a number other than 0, a string other than the empty one); on leaving, or
  before running again for another id, it resets the detail state.
\<close>

definition truthyId :: "id_or_name \<Rightarrow> bool" where
  "truthyId i = (case i of Id n \<Rightarrow> n \<noteq> 0 | Name str \<Rightarrow> truthy str)"

definition detailEffect :: "id_or_name \<Rightarrow> app \<Rightarrow> app" where
  "detailEffect pokemonId s = (if truthyId pokemonId then fetchDetail pokemonId s else s)"

definition detailEffect_cleanup :: "app \<Rightarrow> app" where
  "detailEffect_cleanup s = onStore resetDetail s"

section \<open>Running actions to completion\<close>

text \<open>
  An action run on its own: called with the closure of the current render, and, when
  the call reached the gateway, resumed with the result \<open>r\<close> before anything else runs.
  A call that returned at its guard has nothing to resume.
\<close>

definition loadInitialData_run :: "js_error + page_result \<Rightarrow> app \<Rightarrow> app" where
  "loadInitialData_run r s =
     (if isFetchingRef s then s else loadInitialData_resume r (loadInitialData s))"

definition loadMoreData_run :: "js_error + page_result \<Rightarrow> app \<Rightarrow> app" where
  "loadMoreData_run r s =
     (let rs = store s
      in if isLoadingMoreRef s \<or> \<not> hasMore rs \<or> isLoading rs \<or> isRefreshing rs then s
         else loadMoreData_resume rs r (loadMoreData rs s))"

definition refreshData_run :: "js_error + page_result \<Rightarrow> app \<Rightarrow> app" where
  "refreshData_run r s =
     (let rs = store s
      in if isFetchingRef s \<or> isLoading rs then s
         else refreshData_resume r (refreshData rs s))"

text \<open>One initial load, then one incremental load per further page, all successful.\<close>

fun loadMorePages :: "page_result list \<Rightarrow> app \<Rightarrow> app" where
  "loadMorePages [] s = s"
| "loadMorePages (p # ps) s = loadMorePages ps (loadMoreData_run (Inr p) s)"

definition loadPages :: "page_result \<Rightarrow> page_result list \<Rightarrow> app \<Rightarrow> app" where
  "loadPages p ps s = loadMorePages ps (loadInitialData_run (Inr p) s)"

text \<open>The requests for \<open>n\<close> pages in a row from page \<open>k\<close> on, and for the first \<open>n\<close> pages.\<close>

definition pageRequestsFrom :: "nat \<Rightarrow> nat \<Rightarrow> request list" where
  "pageRequestsFrom k n =
     map (\<lambda>i. GetPokemonList \<lparr>limit = 20, offset = 20 * int i\<rparr>) [k..<k + n]"

definition pageRequests :: "nat \<Rightarrow> request list" where
  "pageRequests n = pageRequestsFrom 0 n"

section \<open>Sample data\<close>

definition bulbasaur :: Pokemon where
  "bulbasaur = \<lparr>pokemon_id = 1, name = ''bulbasaur'',
     url = ''https://pokeapi.co/api/v2/pokemon/1/'', imageUrl = ''1.png'', types = []\<rparr>"

definition pikachu :: Pokemon where
  "pikachu = \<lparr>pokemon_id = 25, name = ''pikachu'',
     url = ''https://pokeapi.co/api/v2/pokemon/25/'', imageUrl = ''25.png'', types = []\<rparr>"

definition raichu :: Pokemon where
  "raichu = \<lparr>pokemon_id = 26, name = ''Raichu'',
     url = ''https://pokeapi.co/api/v2/pokemon/26/'', imageUrl = ''26.png'', types = []\<rparr>"

definition firstPage :: page_result where
  "firstPage = \<lparr>pokemon = [bulbasaur, pikachu], moreAvailable = True\<rparr>"

definition secondPage :: page_result where
  "secondPage = \<lparr>pokemon = [raichu], moreAvailable = False\<rparr>"

definition bulbasaurDetail :: PokemonDetail where
  "bulbasaurDetail =
     \<lparr>detail_id = 1, detail_name = ''bulbasaur'', height = 7, weight = 69,
      base_experience = 64, sprite_front_default = None, sprite_back_default = None,
      sprite_official_artwork = None, detail_types = [(1, ''grass'', ''type/12'')],
      stats = [(45, 0, ''hp'', ''stat/1'')], abilities = [(''overgrow'', ''ability/65'', False, 1)]\<rparr>"

definition notFound :: js_error where
  "notFound = AxiosError (Some ''ERR_BAD_REQUEST'') (Some 404)"

definition timedOut :: js_error where
  "timedOut = AxiosError (Some ''ECONNABORTED'') None"

text \<open>The list screen after its first page has arrived.\<close>

definition loadedApp :: app where
  "loadedApp = loadInitialData_run (Inr firstPage) initialApp"

text \<open>The same with the user searching for \<open>PIKA\<close>.\<close>

definition searchingApp :: app where
  "searchingApp = onStore (setSearchQuery ''PIKA'') loadedApp"

text \<open>The same with an incremental load awaiting the gateway.\<close>

definition loadingMoreApp :: app where
  "loadingMoreApp = loadMoreData (store loadedApp) loadedApp"

text \<open>The list loaded and a detail fetch for id 25 awaiting the gateway.\<close>

definition loadingDetailApp :: app where
  "loadingDetailApp = fetchDetail (Id 25) loadedApp"

text \<open>
  A detail view opened for id 1 and left before the gateway answered, then opened for
  id 25; the answer for id 1 arrives while the request for id 25 is awaited.
\<close>

definition staleDetailApp :: app where
  "staleDetailApp =
     fetchDetail_resume (Inr bulbasaurDetail)
       (detailEffect (Id 25) (detailEffect_cleanup (detailEffect (Id 1) initialApp)))"

section \<open>Properties of the string operations\<close>

lemma includes_str_sublist: "includes_str s sub = sublist sub s"
  by (induction s) (auto simp: sublist_Cons_right)

lemma includes_str_empty: "includes_str s []"
  by (cases s) auto

lemma toLowerCase_empty: "(toLowerCase s = []) = (s = [])"
  by (simp add: toLowerCase_def)

lemma specFilteredView_empty: "specFilteredView [] accumulated = accumulated"
  by (simp add: specFilteredView_def)

lemma specFilteredView_subseq: "subseq (specFilteredView q accumulated) accumulated"
  by (simp add: specFilteredView_def)

section \<open>The filtered view\<close>

lemma filter_by_query:
  "(if truthy (toLowerCase q)
    then filter (\<lambda>p. includes_str (toLowerCase (name p)) (toLowerCase q)) xs
    else xs) = specFilteredView q xs"
  by (cases "q = []") (simp_all add: truthy_def toLowerCase_empty specFilteredView_def)

lemma viewInvariant_initial: "viewInvariant initialStore"
  by (simp add: viewInvariant_def initialStore_def specFilteredView_def)

lemma viewInvariant_setPokemonList: "viewInvariant (setPokemonList ps appendToList st)"
  by (simp add: viewInvariant_def setPokemonList_def Let_def filter_by_query)

lemma viewInvariant_setSearchQuery: "viewInvariant (setSearchQuery q st)"
  by (simp add: viewInvariant_def setSearchQuery_def Let_def filter_by_query)

lemma viewInvariant_resetList: "viewInvariant (resetList st)"
  by (simp add: viewInvariant_def resetList_def specFilteredView_def)

lemma viewInvariant_dispatch: "viewInvariant st \<Longrightarrow> viewInvariant (dispatch a st)"
proof (cases a)
  case (SetPokemonList ps appendToList)
  then show ?thesis by (simp add: viewInvariant_setPokemonList)
next
  case (SetSearchQuery q)
  then show ?thesis by (simp add: viewInvariant_setSearchQuery)
next
  case ResetList
  then show ?thesis by (simp add: viewInvariant_resetList)
qed (simp_all add: viewInvariant_def setLoading_def setRefreshing_def setError_def
      setHasMore_def setPagination_def setSelectedPokemon_def setDetailLoading_def
      setDetailError_def resetDetail_def)

lemma viewInvariant_runStore: "viewInvariant st \<Longrightarrow> viewInvariant (runStore acts st)"
  unfolding runStore_def
  by (induction acts arbitrary: st) (simp_all add: viewInvariant_dispatch)

text \<open>
  C1. In every reachable store, that is after any sequence of store actions from the
  initial store (\<open>setPokemonList\<close> with or without append, \<open>setSearchQuery\<close>, \<open>resetList\<close>
  and every other setter), the filtered view is exactly the accumulated list restricted
  to the entries whose lowercased name contains the lowercased search term, every entry
  when the term is empty, in the order of the accumulated list.
\<close>

theorem filtered_view_invariant:
  "filteredList (runStore acts initialStore) =
     specFilteredView (searchQuery (runStore acts initialStore))
       (pokemonList (runStore acts initialStore))"
  using viewInvariant_runStore [OF viewInvariant_initial, of acts]
  by (simp add: viewInvariant_def)

theorem filtered_view_invariant_witness:
  "filteredList (runStore [SetPokemonList [bulbasaur, pikachu] False, SetSearchQuery ''PIKA'',
                           SetPokemonList [raichu] True, SetSearchQuery ''CHU''] initialStore)
     = [pikachu, raichu]"
proof -
  have "specFilteredView
          (searchQuery (runStore [SetPokemonList [bulbasaur, pikachu] False,
             SetSearchQuery ''PIKA'', SetPokemonList [raichu] True,
             SetSearchQuery ''CHU''] initialStore))
          (pokemonList (runStore [SetPokemonList [bulbasaur, pikachu] False,
             SetSearchQuery ''PIKA'', SetPokemonList [raichu] True,
             SetSearchQuery ''CHU''] initialStore))
        = [pikachu, raichu]"
    by code_simp
  then show ?thesis
    using filtered_view_invariant [of "[SetPokemonList [bulbasaur, pikachu] False,
             SetSearchQuery ''PIKA'', SetPokemonList [raichu] True, SetSearchQuery ''CHU'']"]
    by simp
qed

section \<open>Refresh\<close>

lemmas store_defs = setPokemonList_def setLoading_def setRefreshing_def setError_def
  setHasMore_def setPagination_def setSearchQuery_def resetList_def setSelectedPokemon_def
  setDetailLoading_def setDetailError_def resetDetail_def

lemmas gateway_defs = onStore_def fetchPokemonList_def fetchPokemonDetail_def

lemma refreshData_lists:
  "pokemonList (store (refreshData rs s)) = pokemonList (store s) \<and>
   filteredList (store (refreshData rs s)) = filteredList (store s)"
  by (simp add: refreshData_def store_defs gateway_defs Let_def)

lemma refreshData_resume_failed_lists:
  "pokemonList (store (refreshData_resume (Inl err) s)) = pokemonList (store s) \<and>
   filteredList (store (refreshData_resume (Inl err) s)) = filteredList (store s)"
  by (simp add: refreshData_resume_def store_defs gateway_defs Let_def)

text \<open>
  C2. A refresh whose page fetch fails leaves the accumulated list and its filtered
  view as they were: the call up to the gateway request does not touch them (the clear
  is not made before the page has arrived), the continuation after a rejection does
  not touch them either, and so the two together, and the refresh run on its own, keep
  both lists.
\<close>

theorem failed_refresh_keeps_list:
  "pokemonList (store (refreshData rs s)) = pokemonList (store s) \<and>
   filteredList (store (refreshData rs s)) = filteredList (store s) \<and>
   pokemonList (store (refreshData_resume (Inl err) (refreshData rs s))) = pokemonList (store s) \<and>
   filteredList (store (refreshData_resume (Inl err) (refreshData rs s))) = filteredList (store s) \<and>
   pokemonList (store (refreshData_run (Inl err) s)) = pokemonList (store s) \<and>
   filteredList (store (refreshData_run (Inl err) s)) = filteredList (store s)"
  by (simp add: refreshData_lists refreshData_resume_failed_lists refreshData_run_def Let_def)

theorem failed_refresh_keeps_list_witness:
  "pokemonList (store (refreshData_run (Inl timedOut) searchingApp)) = [bulbasaur, pikachu] \<and>
   filteredList (store (refreshData_run (Inl timedOut) searchingApp)) = [pikachu] \<and>
   requests (refreshData_run (Inl timedOut) searchingApp) = pageRequests 1 @ pageRequests 1"
proof -
  have "pokemonList (store searchingApp) = [bulbasaur, pikachu]"
    by code_simp
  moreover have "filteredList (store searchingApp) = [pikachu]"
    by code_simp
  moreover have "requests (refreshData_run (Inl timedOut) searchingApp)
                   = pageRequests 1 @ pageRequests 1"
    by code_simp
  ultimately show ?thesis
    using failed_refresh_keeps_list [of "store searchingApp" searchingApp timedOut]
    by simp
qed

text \<open>
  C10. When the page of a refresh arrives, the continuation resets the list state, the
  search term with it, before it stores the page: whatever the state the refresh began
  in and whatever happened while it was awaited, afterwards the search term is empty
  and both the accumulated list and the filtered view are the fresh page.
\<close>

theorem refresh_clears_search:
  "searchQuery (store (refreshData_resume (Inr res) s)) = [] \<and>
   pokemonList (store (refreshData_resume (Inr res) s)) = pokemon res \<and>
   filteredList (store (refreshData_resume (Inr res) s)) = pokemon res"
  by (simp add: refreshData_resume_def store_defs gateway_defs Let_def truthy_def
      toLowerCase_def)

theorem refresh_clears_search_witness:
  "searchQuery (store searchingApp) = ''PIKA'' \<and>
   filteredList (store searchingApp) = [pikachu] \<and>
   searchQuery (store (refreshData_resume (Inr firstPage)
      (refreshData (store searchingApp) searchingApp))) = [] \<and>
   filteredList (store (refreshData_resume (Inr firstPage)
      (refreshData (store searchingApp) searchingApp))) = [bulbasaur, pikachu]"
proof -
  have "searchQuery (store searchingApp) = ''PIKA''" by code_simp
  moreover have "filteredList (store searchingApp) = [pikachu]" by code_simp
  moreover have "pokemon firstPage = [bulbasaur, pikachu]" by code_simp
  ultimately show ?thesis
    using refresh_clears_search [of firstPage "refreshData (store searchingApp) searchingApp"]
    by simp
qed

section \<open>Initial load\<close>

lemma loadInitialData_lists:
  "pokemonList (store (loadInitialData s)) = pokemonList (store s) \<and>
   filteredList (store (loadInitialData s)) = filteredList (store s)"
  by (simp add: loadInitialData_def store_defs gateway_defs Let_def)

lemma loadInitialData_resume_failed:
  "error (store (loadInitialData_resume (Inl err) s)) = Some (getErrorMessage err) \<and>
   pokemonList (store (loadInitialData_resume (Inl err) s)) = pokemonList (store s) \<and>
   filteredList (store (loadInitialData_resume (Inl err) s)) = filteredList (store s)"
  by (simp add: loadInitialData_resume_def store_defs gateway_defs Let_def)

lemma loadInitialData_resume_flags:
  "\<not> isLoading (store (loadInitialData_resume r s)) \<and>
   \<not> isFetchingRef (loadInitialData_resume r s)"
  by (cases r) (simp_all add: loadInitialData_resume_def store_defs gateway_defs Let_def)

text \<open>
  C8. An initial load that passes its guard requests the first page with the loading
  flag and the in-flight guard set. When the fetch fails, the error field holds the
  message \<open>getErrorMessage\<close> gives for the failure and the accumulated list and its
  filtered view are unchanged; and whatever the outcome \<open>r\<close>, success or failure, the
  loading flag is false and the guard is cleared once the load has completed.
\<close>

theorem failed_initial_load:
  assumes "\<not> isFetchingRef s"
  shows "requests (loadInitialData s)
           = requests s @ [GetPokemonList \<lparr>limit = 20, offset = 0\<rparr>] \<and>
         isLoading (store (loadInitialData s)) \<and> isFetchingRef (loadInitialData s) \<and>
         error (store (loadInitialData_run (Inl err) s)) = Some (getErrorMessage err) \<and>
         pokemonList (store (loadInitialData_run (Inl err) s)) = pokemonList (store s) \<and>
         filteredList (store (loadInitialData_run (Inl err) s)) = filteredList (store s) \<and>
         \<not> isLoading (store (loadInitialData_run r s)) \<and>
         \<not> isFetchingRef (loadInitialData_run r s)"
proof -
  have "requests (loadInitialData s)
          = requests s @ [GetPokemonList \<lparr>limit = 20, offset = 0\<rparr>] \<and>
        isLoading (store (loadInitialData s)) \<and> isFetchingRef (loadInitialData s)"
    using assms by (simp add: loadInitialData_def store_defs gateway_defs Let_def)
  moreover have
    "loadInitialData_run (Inl err) s = loadInitialData_resume (Inl err) (loadInitialData s)"
    and "loadInitialData_run r s = loadInitialData_resume r (loadInitialData s)"
    using assms by (simp_all add: loadInitialData_run_def)
  ultimately show ?thesis
    by (simp add: loadInitialData_resume_failed loadInitialData_resume_flags
        loadInitialData_lists)
qed

theorem failed_initial_load_witness:
  "\<not> isFetchingRef loadedApp \<and>
   error (store (loadInitialData_run (Inl timedOut) loadedApp))
     = Some ''Request timed out. Please check your connection and try again.'' \<and>
   pokemonList (store (loadInitialData_run (Inl timedOut) loadedApp)) = [bulbasaur, pikachu] \<and>
   \<not> isLoading (store (loadInitialData_run (Inr secondPage) loadedApp))"
proof -
  have h: "\<not> isFetchingRef loadedApp" by code_simp
  have "pokemonList (store loadedApp) = [bulbasaur, pikachu]" by code_simp
  moreover have "getErrorMessage timedOut
      = ''Request timed out. Please check your connection and try again.''"
    by code_simp
  ultimately show ?thesis
    using h failed_initial_load [OF h, of timedOut "Inr secondPage"] by simp
qed

section \<open>Incremental load\<close>

lemma loadMoreData_resume_guard: "\<not> isLoadingMoreRef (loadMoreData_resume rs r s)"
  by (cases r) (simp_all add: loadMoreData_resume_def store_defs gateway_defs Let_def)

text \<open>
  C5. When an incremental load passes its guards, it sets its in-flight guard and makes
  one request. A second call while that request is pending, whatever render \<open>rs'\<close> it
  comes from, returns at the guard and changes nothing, so the two calls together have
  made exactly one request. When the pending request settles, with a page or with a
  failure, in whatever state \<open>t\<close>, the guard is cleared.
\<close>

theorem loadMore_single_flight:
  assumes "\<not> (isLoadingMoreRef s \<or> \<not> hasMore rs \<or> isLoading rs \<or> isRefreshing rs)"
  shows "isLoadingMoreRef (loadMoreData rs s) \<and>
         requests (loadMoreData rs s) = requests s @ [GetPokemonList (pagination rs)] \<and>
         loadMoreData rs' (loadMoreData rs s) = loadMoreData rs s \<and>
         requests (loadMoreData rs' (loadMoreData rs s))
           = requests s @ [GetPokemonList (pagination rs)] \<and>
         \<not> isLoadingMoreRef (loadMoreData_resume rs r t)"
proof -
  have a: "isLoadingMoreRef (loadMoreData rs s) \<and>
         requests (loadMoreData rs s) = requests s @ [GetPokemonList (pagination rs)]"
    using assms by (simp add: loadMoreData_def gateway_defs Let_def)
  then have b: "loadMoreData rs' (loadMoreData rs s) = loadMoreData rs s"
    by (simp add: loadMoreData_def [of rs' "loadMoreData rs s"])
  from a b show ?thesis by (simp add: loadMoreData_resume_guard)
qed

theorem loadMore_single_flight_witness:
  "\<not> (isLoadingMoreRef loadedApp \<or> \<not> hasMore (store loadedApp) \<or> isLoading (store loadedApp)
      \<or> isRefreshing (store loadedApp)) \<and>
   requests (loadMoreData (store loadingMoreApp) (loadMoreData (store loadedApp) loadedApp))
     = pageRequests 2 \<and>
   \<not> isLoadingMoreRef (loadMoreData_resume (store loadedApp) (Inl timedOut)
        (loadMoreData (store loadingMoreApp) (loadMoreData (store loadedApp) loadedApp)))"
proof -
  have h: "\<not> (isLoadingMoreRef loadedApp \<or> \<not> hasMore (store loadedApp)
      \<or> isLoading (store loadedApp) \<or> isRefreshing (store loadedApp))"
    by code_simp
  note t = loadMore_single_flight [OF h, of "store loadingMoreApp" "Inl timedOut"
      "loadMoreData (store loadingMoreApp) (loadMoreData (store loadedApp) loadedApp)"]
  have e: "requests loadedApp @ [GetPokemonList (pagination (store loadedApp))] = pageRequests 2"
    by code_simp
  from t have "requests (loadMoreData (store loadingMoreApp)
      (loadMoreData (store loadedApp) loadedApp))
      = requests loadedApp @ [GetPokemonList (pagination (store loadedApp))]"
    by blast
  with e have r: "requests (loadMoreData (store loadingMoreApp)
      (loadMoreData (store loadedApp) loadedApp)) = pageRequests 2"
    by (rule trans [rotated])
  from t have g: "\<not> isLoadingMoreRef (loadMoreData_resume (store loadedApp) (Inl timedOut)
        (loadMoreData (store loadingMoreApp) (loadMoreData (store loadedApp) loadedApp)))"
    by blast
  from h r g show ?thesis by blast
qed

text \<open>
  C4. \<open>loadMoreData\<close> does not look at the search term: called while the user searches
  for \<open>PIKA\<close>, with a first page loaded and more pages announced, it makes a second
  request and changes the state.
\<close>

theorem loadMore_ignores_search_counterexample:
  "searchQuery (store searchingApp) = ''PIKA'' \<and>
   requests searchingApp = pageRequests 1 \<and>
   requests (loadMoreData (store searchingApp) searchingApp) = pageRequests 2 \<and>
   loadMoreData (store searchingApp) searchingApp \<noteq> searchingApp"
proof -
  have "searchQuery (store searchingApp) = ''PIKA''" by code_simp
  moreover have "requests searchingApp = pageRequests 1" by code_simp
  moreover have "requests (loadMoreData (store searchingApp) searchingApp) = pageRequests 2"
    by code_simp
  moreover have "loadMoreData (store searchingApp) searchingApp \<noteq> searchingApp"
    by code_simp
  ultimately show ?thesis by blast
qed

text \<open>
  C4, as the code has it. The search term is checked by the list screen's
  \<open>handleEndReached\<close>, the caller of \<open>loadMoreData\<close>: when the rendered search term is not
  empty, it does not call \<open>loadMoreData\<close>, so no request is made and the state is
  unchanged.
\<close>

theorem endReached_while_searching:
  assumes "searchQuery rs \<noteq> []"
  shows "handleEndReached rs s = s \<and> requests (handleEndReached rs s) = requests s"
  using assms by (simp add: handleEndReached_def truthy_def)

theorem endReached_while_searching_witness:
  "searchQuery (store searchingApp) \<noteq> [] \<and>
   handleEndReached (store searchingApp) searchingApp = searchingApp \<and>
   requests (handleEndReached (store searchingApp) searchingApp) = pageRequests 1"
proof -
  have h: "searchQuery (store searchingApp) \<noteq> []" by code_simp
  have "requests searchingApp = pageRequests 1" by code_simp
  then show ?thesis
    using h endReached_while_searching [OF h, of searchingApp] by simp
qed

section \<open>Refresh and the other fetches\<close>

text \<open>
  C6. A refresh is not held back by an incremental load in flight: with the second
  page requested and not yet arrived, \<open>refreshData\<close> makes a third request and changes
  the state. Nor is it held back by a detail fetch in flight.
\<close>

theorem refresh_during_loadMore_counterexample:
  "isLoadingMoreRef loadingMoreApp \<and>
   requests loadingMoreApp = pageRequests 2 \<and>
   requests (refreshData (store loadingMoreApp) loadingMoreApp)
     = pageRequests 2 @ pageRequests 1 \<and>
   refreshData (store loadingMoreApp) loadingMoreApp \<noteq> loadingMoreApp \<and>
   detailLoading (store loadingDetailApp) \<and>
   requests (refreshData (store loadingDetailApp) loadingDetailApp)
     = requests loadingDetailApp @ pageRequests 1"
proof -
  have "isLoadingMoreRef loadingMoreApp" by code_simp
  moreover have "requests loadingMoreApp = pageRequests 2" by code_simp
  moreover have "requests (refreshData (store loadingMoreApp) loadingMoreApp)
                   = pageRequests 2 @ pageRequests 1"
    by code_simp
  moreover have "refreshData (store loadingMoreApp) loadingMoreApp \<noteq> loadingMoreApp"
    by code_simp
  moreover have "detailLoading (store loadingDetailApp)" by code_simp
  moreover have "requests (refreshData (store loadingDetailApp) loadingDetailApp)
                   = requests loadingDetailApp @ pageRequests 1"
    by code_simp
  ultimately show ?thesis by blast
qed

text \<open>
  C6, as the code has it. A refresh is a no-op, with no request made and no state
  changed, whenever an initial load or a refresh is in flight: their shared guard
  \<open>isFetchingRef\<close> is set, or the rendered loading flag is true.
\<close>

theorem refresh_single_flight:
  assumes "isFetchingRef s \<or> isLoading rs"
  shows "refreshData rs s = s \<and> requests (refreshData rs s) = requests s"
  using assms by (auto simp add: refreshData_def)

theorem refresh_single_flight_witness:
  "isFetchingRef (loadInitialData initialApp) \<and>
   refreshData (store (loadInitialData initialApp)) (loadInitialData initialApp)
     = loadInitialData initialApp \<and>
   requests (refreshData (store (loadInitialData initialApp)) (loadInitialData initialApp))
     = pageRequests 1"
proof -
  have h: "isFetchingRef (loadInitialData initialApp)" by code_simp
  then have h': "isFetchingRef (loadInitialData initialApp)
      \<or> isLoading (store (loadInitialData initialApp))" ..
  have "requests (loadInitialData initialApp) = pageRequests 1" by code_simp
  then show ?thesis
    using h refresh_single_flight [OF h'] by simp
qed

section \<open>Detail fetch\<close>

lemma fetchDetail_selected:
  "selectedPokemon (store (fetchDetail i s)) = selectedPokemon (store s) \<and>
   detailError (store (fetchDetail i s)) = None"
  by (simp add: fetchDetail_def store_defs gateway_defs Let_def)

lemma cleanup_clears:
  "selectedPokemon (store (cleanup s)) = None \<and> detailError (store (cleanup s)) = None"
  by (simp add: cleanup_def store_defs gateway_defs)

text \<open>
  C9. A failed detail fetch does not clear the stored record. The detail view is opened
  for id 1 and left before the answer; it is opened for id 25; the record of id 1
  arrives and is stored; the fetch for id 25 fails with status 404. The error is the
  not-found message and the stored record is that of id 1, not null.
\<close>

theorem failed_detail_keeps_record_counterexample:
  "detailError (store (fetchDetail_resume (Inl notFound) staleDetailApp))
     = Some ''Pokemon not found.'' \<and>
   selectedPokemon (store (fetchDetail_resume (Inl notFound) staleDetailApp))
     = Some bulbasaurDetail \<and>
   selectedPokemon (store (fetchDetail_resume (Inl notFound) staleDetailApp)) \<noteq> None"
proof -
  have "detailError (store (fetchDetail_resume (Inl notFound) staleDetailApp))
          = Some ''Pokemon not found.''"
    by code_simp
  moreover have "selectedPokemon (store (fetchDetail_resume (Inl notFound) staleDetailApp))
                   = Some bulbasaurDetail"
    by code_simp
  ultimately show ?thesis by simp
qed

text \<open>
  C9, as the code has it. When a detail fetch fails with an Axios error of status 404
  that is not a timeout, the detail error is the not-found message and the stored record
  is what it was when the failure arrived, as the call itself left it what it was: null
  when it was null. A reset then sets the stored record and the detail error to null, and
  they are still null when the effect has started the fetch for another id \<open>j\<close>.
\<close>

theorem detail_not_found_then_reset:
  assumes "code \<noteq> Some ''ECONNABORTED''"
  shows "detailError (store (fetchDetail_resume (Inl (AxiosError code (Some 404))) s))
           = Some ''Pokemon not found.'' \<and>
         selectedPokemon (store (fetchDetail_resume (Inl (AxiosError code (Some 404))) s))
           = selectedPokemon (store s) \<and>
         selectedPokemon (store (fetchDetail i s)) = selectedPokemon (store s) \<and>
         selectedPokemon (store (cleanup t)) = None \<and>
         detailError (store (cleanup t)) = None \<and>
         selectedPokemon (store (detailEffect j (cleanup t))) = None \<and>
         detailError (store (detailEffect j (cleanup t))) = None"
proof -
  have "detailError (store (fetchDetail_resume (Inl (AxiosError code (Some 404))) s))
           = Some ''Pokemon not found.'' \<and>
         selectedPokemon (store (fetchDetail_resume (Inl (AxiosError code (Some 404))) s))
           = selectedPokemon (store s)"
    using assms by (simp add: fetchDetail_resume_def store_defs gateway_defs Let_def)
  moreover have "selectedPokemon (store (detailEffect j (cleanup t))) = None \<and>
         detailError (store (detailEffect j (cleanup t))) = None"
    by (simp add: detailEffect_def fetchDetail_selected cleanup_clears)
  ultimately show ?thesis
    by (simp add: fetchDetail_selected cleanup_clears)
qed

theorem detail_not_found_then_reset_witness:
  "Some ''ERR_BAD_REQUEST'' \<noteq> Some ''ECONNABORTED'' \<and>
   detailError (store (fetchDetail_resume (Inl notFound) (fetchDetail (Id 25) initialApp)))
     = Some ''Pokemon not found.'' \<and>
   selectedPokemon (store (fetchDetail_resume (Inl notFound) (fetchDetail (Id 25) initialApp)))
     = None \<and>
   selectedPokemon (store (detailEffect (Id 1)
      (cleanup (fetchDetail_resume (Inl notFound) (fetchDetail (Id 25) initialApp))))) = None \<and>
   detailError (store (detailEffect (Id 1)
      (cleanup (fetchDetail_resume (Inl notFound) (fetchDetail (Id 25) initialApp))))) = None"
proof -
  have h: "Some ''ERR_BAD_REQUEST'' \<noteq> Some ''ECONNABORTED''" by simp
  have "selectedPokemon (store (fetchDetail (Id 25) initialApp)) = None" by code_simp
  then show ?thesis
    using h detail_not_found_then_reset [OF h, of "fetchDetail (Id 25) initialApp" "Id 25"
        "fetchDetail_resume (Inl notFound) (fetchDetail (Id 25) initialApp)" "Id 1"]
    by (simp add: notFound_def)
qed

section \<open>Sequences of page loads\<close>

lemma loadInitialData_run_success:
  assumes "\<not> isFetchingRef s"
  shows "pokemonList (store (loadInitialData_run (Inr p) s)) = pokemon p \<and>
         hasMore (store (loadInitialData_run (Inr p) s)) = moreAvailable p \<and>
         pagination (store (loadInitialData_run (Inr p) s)) = \<lparr>limit = 20, offset = 20\<rparr> \<and>
         \<not> isLoading (store (loadInitialData_run (Inr p) s)) \<and>
         isRefreshing (store (loadInitialData_run (Inr p) s)) = isRefreshing (store s) \<and>
         isLoadingMoreRef (loadInitialData_run (Inr p) s) = isLoadingMoreRef s \<and>
         requests (loadInitialData_run (Inr p) s)
           = requests s @ [GetPokemonList \<lparr>limit = 20, offset = 0\<rparr>]"
  using assms
  by (simp add: loadInitialData_run_def loadInitialData_def loadInitialData_resume_def
      store_defs gateway_defs Let_def)

lemma loadMoreData_run_success:
  assumes "\<not> isLoadingMoreRef s" and "hasMore (store s)"
    and "\<not> isLoading (store s)" and "\<not> isRefreshing (store s)"
  shows "pokemonList (store (loadMoreData_run (Inr p) s)) = pokemonList (store s) @ pokemon p \<and>
         hasMore (store (loadMoreData_run (Inr p) s)) = moreAvailable p \<and>
         pagination (store (loadMoreData_run (Inr p) s))
           = \<lparr>limit = limit (pagination (store s)),
              offset = offset (pagination (store s)) + limit (pagination (store s))\<rparr> \<and>
         \<not> isLoading (store (loadMoreData_run (Inr p) s)) \<and>
         \<not> isRefreshing (store (loadMoreData_run (Inr p) s)) \<and>
         \<not> isLoadingMoreRef (loadMoreData_run (Inr p) s) \<and>
         requests (loadMoreData_run (Inr p) s)
           = requests s @ [GetPokemonList (pagination (store s))]"
  using assms
  by (simp add: loadMoreData_run_def loadMoreData_def loadMoreData_resume_def
      store_defs gateway_defs Let_def)

lemma pageRequestsFrom_Suc:
  "pageRequestsFrom k (Suc n)
     = GetPokemonList \<lparr>limit = 20, offset = 20 * int k\<rparr> # pageRequestsFrom (Suc k) n"
  by (simp add: pageRequestsFrom_def upt_conv_Cons del: upt_Suc)

lemma loadMorePages_result:
  assumes "\<not> isLoadingMoreRef s" and "\<not> isLoading (store s)" and "\<not> isRefreshing (store s)"
    and "pagination (store s) = \<lparr>limit = 20, offset = 20 * int k\<rparr>"
    and "ps \<noteq> [] \<longrightarrow> hasMore (store s)"
    and "\<forall>p \<in> set (butlast ps). moreAvailable p"
  shows "pokemonList (store (loadMorePages ps s)) = pokemonList (store s) @ concat (map pokemon ps) \<and>
         pagination (store (loadMorePages ps s)) = \<lparr>limit = 20, offset = 20 * int (k + length ps)\<rparr> \<and>
         requests (loadMorePages ps s) = requests s @ pageRequestsFrom k (length ps)"
  using assms
proof (induction ps arbitrary: s k)
  case Nil
  then show ?case by (simp add: pageRequestsFrom_def)
next
  case (Cons p ps)
  let ?s' = "loadMoreData_run (Inr p) s"
  from Cons.prems have hm: "hasMore (store s)" by simp
  note step = loadMoreData_run_success [OF Cons.prems(1) hm Cons.prems(2) Cons.prems(3), of p]
  have pg: "pagination (store ?s') = \<lparr>limit = 20, offset = 20 * int (Suc k)\<rparr>"
    using step Cons.prems(4) by (simp add: algebra_simps)
  have more: "ps \<noteq> [] \<longrightarrow> hasMore (store ?s')"
    using step Cons.prems(6) by (cases ps) simp_all
  have rest: "\<forall>q \<in> set (butlast ps). moreAvailable q"
    using Cons.prems(6) by (cases ps) simp_all
  have ih: "pokemonList (store (loadMorePages ps ?s')) = pokemonList (store ?s') @ concat (map pokemon ps) \<and>
         pagination (store (loadMorePages ps ?s')) = \<lparr>limit = 20, offset = 20 * int (Suc k + length ps)\<rparr> \<and>
         requests (loadMorePages ps ?s') = requests ?s' @ pageRequestsFrom (Suc k) (length ps)"
    using step by (intro Cons.IH [OF _ _ _ pg more rest]) simp_all
  show ?case
    using ih step Cons.prems(4) by (simp add: pageRequestsFrom_Suc)
qed

lemma loadPages_result:
  assumes "\<not> isFetchingRef s" and "\<not> isLoadingMoreRef s" and "\<not> isRefreshing (store s)"
    and "\<forall>p \<in> set (butlast (p0 # ps)). moreAvailable p"
  shows "pokemonList (store (loadPages p0 ps s)) = concat (map pokemon (p0 # ps)) \<and>
         pagination (store (loadPages p0 ps s))
           = \<lparr>limit = 20, offset = 20 * int (Suc (length ps))\<rparr> \<and>
         requests (loadPages p0 ps s) = requests s @ pageRequests (Suc (length ps))"
proof -
  let ?s1 = "loadInitialData_run (Inr p0) s"
  note first = loadInitialData_run_success [OF assms(1), of p0]
  have pg: "pagination (store ?s1) = \<lparr>limit = 20, offset = 20 * int 1\<rparr>"
    using first by simp
  have more: "ps \<noteq> [] \<longrightarrow> hasMore (store ?s1)"
    using first assms(4) by (cases ps) simp_all
  have rest: "\<forall>q \<in> set (butlast ps). moreAvailable q"
    using assms(4) by (cases ps) simp_all
  have "pokemonList (store (loadMorePages ps ?s1))
          = pokemonList (store ?s1) @ concat (map pokemon ps) \<and>
        pagination (store (loadMorePages ps ?s1))
          = \<lparr>limit = 20, offset = 20 * int (1 + length ps)\<rparr> \<and>
        requests (loadMorePages ps ?s1) = requests ?s1 @ pageRequestsFrom 1 (length ps)"
    using first assms by (intro loadMorePages_result [OF _ _ _ pg more rest]) simp_all
  then show ?thesis
    using first by (simp add: loadPages_def pageRequests_def pageRequestsFrom_Suc)
qed

text \<open>
  C3. One initial load followed by any number of incremental loads, each run to its
  successful end before the next, from a state with no fetch in flight, where every
  page but the last announces a further page (otherwise the next load is not made at
  all): the accumulated list is the concatenation of the returned pages in arrival
  order, its length is the sum of their lengths, and one request has been made per page.
\<close>

theorem pages_accumulate:
  assumes "\<not> isFetchingRef s" and "\<not> isLoadingMoreRef s" and "\<not> isRefreshing (store s)"
    and "\<forall>p \<in> set (butlast (p0 # ps)). moreAvailable p"
  shows "pokemonList (store (loadPages p0 ps s)) = concat (map pokemon (p0 # ps)) \<and>
         length (pokemonList (store (loadPages p0 ps s)))
           = sum_list (map (\<lambda>p. length (pokemon p)) (p0 # ps)) \<and>
         requests (loadPages p0 ps s) = requests s @ pageRequests (Suc (length ps))"
proof -
  have "length (concat (map pokemon (p0 # ps)))
          = sum_list (map (\<lambda>p. length (pokemon p)) (p0 # ps))"
    by (simp add: length_concat comp_def)
  then show ?thesis
    using loadPages_result [OF assms] by simp
qed

theorem pages_accumulate_witness:
  "\<not> isFetchingRef initialApp \<and> \<not> isLoadingMoreRef initialApp \<and>
   \<not> isRefreshing (store initialApp) \<and> moreAvailable firstPage \<and>
   pokemonList (store (loadPages firstPage [secondPage] initialApp))
     = [bulbasaur, pikachu, raichu] \<and>
   length (pokemonList (store (loadPages firstPage [secondPage] initialApp))) = 3 \<and>
   requests (loadPages firstPage [secondPage] initialApp) = pageRequests 2"
proof -
  have h1: "\<not> isFetchingRef initialApp" by code_simp
  have h2: "\<not> isLoadingMoreRef initialApp" by code_simp
  have h3: "\<not> isRefreshing (store initialApp)" by code_simp
  have h4: "\<forall>p \<in> set (butlast (firstPage # [secondPage])). moreAvailable p"
    by (simp add: firstPage_def)
  have c: "concat (map pokemon (firstPage # [secondPage])) = [bulbasaur, pikachu, raichu]"
    by (simp add: firstPage_def secondPage_def)
  have e: "requests initialApp @ pageRequests (Suc (length [secondPage])) = pageRequests 2"
    by (simp add: initialApp_def numeral_2_eq_2)
  show ?thesis
    using h1 h2 h3 h4 pages_accumulate [OF h1 h2 h3 h4] c e by simp
qed

section \<open>The pagination cursor\<close>

lemma resume_cursor:
  "pagination (store (loadInitialData_resume (Inr res) t)) = \<lparr>limit = 20, offset = 20\<rparr> \<and>
   pagination (store (refreshData_resume (Inr res) t)) = \<lparr>limit = 20, offset = 20\<rparr> \<and>
   pagination (store (loadMoreData_resume rs (Inr res) t))
     = \<lparr>limit = limit (pagination rs),
        offset = offset (pagination rs) + limit (pagination rs)\<rparr>"
  by (simp add: loadInitialData_resume_def refreshData_resume_def loadMoreData_resume_def
      store_defs gateway_defs Let_def)

lemma first_page_request:
  "\<not> isFetchingRef s \<Longrightarrow>
     requests (loadInitialData s) = requests s @ [GetPokemonList \<lparr>limit = 20, offset = 0\<rparr>]"
  "\<not> (isFetchingRef s \<or> isLoading rs) \<Longrightarrow>
     requests (refreshData rs s) = requests s @ [GetPokemonList \<lparr>limit = 20, offset = 0\<rparr>]"
  by (simp_all add: loadInitialData_def refreshData_def store_defs gateway_defs Let_def)

text \<open>
  C7. The stored cursor is not \<open>{20, 0}\<close> after an initial load or a refresh: once the
  first page has arrived it is \<open>{20, 20}\<close>, the position of the next page.
\<close>

theorem cursor_not_reset_to_zero_counterexample:
  "pagination (store (loadInitialData_run (Inr firstPage) initialApp))
     = \<lparr>limit = 20, offset = 20\<rparr> \<and>
   pagination (store (loadInitialData_run (Inr firstPage) initialApp))
     \<noteq> \<lparr>limit = 20, offset = 0\<rparr> \<and>
   pagination (store (refreshData_run (Inr firstPage) loadedApp))
     = \<lparr>limit = 20, offset = 20\<rparr> \<and>
   pagination (store (refreshData_run (Inr firstPage) loadedApp))
     \<noteq> \<lparr>limit = 20, offset = 0\<rparr>"
proof -
  have "pagination (store (loadInitialData_run (Inr firstPage) initialApp))
          = \<lparr>limit = 20, offset = 20\<rparr>"
    by code_simp
  moreover have "pagination (store (refreshData_run (Inr firstPage) loadedApp))
                   = \<lparr>limit = 20, offset = 20\<rparr>"
    by code_simp
  ultimately show ?thesis by simp
qed

text \<open>
  C7, as the code has it. An initial load, and a refresh made when the initial load has
  completed, request the page at \<open>{limit 20, offset 0}\<close>; when the page of either arrives,
  the stored cursor is set to \<open>{limit 20, offset 20}\<close>. When the page of an incremental
  load arrives, the stored cursor is set to the cursor the load was called with, its
  offset advanced by its limit. So after one initial load and \<open>n\<close> incremental loads,
  each run to its successful end before the next, the cursor is \<open>{20, 20 (n + 1)}\<close>: it
  has advanced by the page size with each of them.
\<close>

theorem cursor_after_loads:
  assumes "\<not> isFetchingRef s" and "\<not> isLoadingMoreRef s" and "\<not> isRefreshing (store s)"
    and "\<forall>p \<in> set (butlast (p0 # ps)). moreAvailable p"
  shows "requests (loadInitialData s)
           = requests s @ [GetPokemonList \<lparr>limit = 20, offset = 0\<rparr>] \<and>
         requests (refreshData (store (loadInitialData_run r s)) (loadInitialData_run r s))
           = requests (loadInitialData_run r s)
               @ [GetPokemonList \<lparr>limit = 20, offset = 0\<rparr>] \<and>
         pagination (store (loadInitialData_resume (Inr res) t))
           = \<lparr>limit = 20, offset = 20\<rparr> \<and>
         pagination (store (refreshData_resume (Inr res) t))
           = \<lparr>limit = 20, offset = 20\<rparr> \<and>
         pagination (store (loadMoreData_resume rs (Inr res) t))
           = \<lparr>limit = limit (pagination rs),
              offset = offset (pagination rs) + limit (pagination rs)\<rparr> \<and>
         pagination (store (loadPages p0 ps s))
           = \<lparr>limit = 20, offset = 20 * int (Suc (length ps))\<rparr>"
proof -
  have idle: "\<not> (isFetchingRef (loadInitialData_run r s)
      \<or> isLoading (store (loadInitialData_run r s)))"
    using assms(1)
    by (simp add: loadInitialData_run_def loadInitialData_resume_flags)
  show ?thesis
    using loadPages_result [OF assms] first_page_request(1) [OF assms(1)]
      first_page_request(2) [OF idle]
    by (simp add: resume_cursor)
qed

theorem cursor_after_loads_witness:
  "\<not> isFetchingRef initialApp \<and> \<not> isLoadingMoreRef initialApp \<and>
   \<not> isRefreshing (store initialApp) \<and> moreAvailable firstPage \<and>
   requests (loadInitialData initialApp) = [GetPokemonList \<lparr>limit = 20, offset = 0\<rparr>] \<and>
   pagination (store (loadMoreData_resume (store loadedApp) (Inr secondPage) loadingMoreApp))
     = \<lparr>limit = 20, offset = 40\<rparr> \<and>
   pagination (store (loadPages firstPage [secondPage] initialApp))
     = \<lparr>limit = 20, offset = 40\<rparr>"
proof -
  have h1: "\<not> isFetchingRef initialApp" by code_simp
  have h2: "\<not> isLoadingMoreRef initialApp" by code_simp
  have h3: "\<not> isRefreshing (store initialApp)" by code_simp
  have h4: "\<forall>p \<in> set (butlast (firstPage # [secondPage])). moreAvailable p"
    by (simp add: firstPage_def)
  have e: "requests initialApp = []"
    by (simp add: initialApp_def)
  have c: "pagination (store loadedApp) = \<lparr>limit = 20, offset = 20\<rparr>"
    by code_simp
  show ?thesis
    using h1 h2 h3 h4 e c
      cursor_after_loads [OF h1 h2 h3 h4, of "Inr firstPage" secondPage loadingMoreApp
        "store loadedApp"]
    by simp
qed

end
